theory Spec2Isabelle
  imports Main "HOL-Library.Word"
begin

section \<open>Values that cross the accessor's interface\<close>

text \<open>
  The package \<^verbatim>\<open>radcache\<close> (file \<^verbatim>\<open>cache.go\<close>) is a layer of typed accessors over a
  \<^verbatim>\<open>*redis.Client\<close>. It computes nothing on the values it carries: integers, floats and
  durations are only passed through, so they are modelled by their bit patterns (\<^verbatim>\<open>int\<close>
  as on a 64-bit platform).
  A Go \<^verbatim>\<open>error\<close> is a value of \<open>error option\<close>: \<open>None\<close> is \<^verbatim>\<open>nil\<close>. A Go result
  \<^verbatim>\<open>(T, error)\<close> is a pair, since the code returns a value beside a non-nil error.
  A value of type \<^verbatim>\<open>interface{}\<close> is \<open>'v option\<close>, \<open>None\<close> being the nil interface.
\<close>

datatype error = Err string

type_synonym go_int = "64 word"
type_synonym int64 = "64 word"
type_synonym float32 = "32 word"
type_synonym float64 = "64 word"
type_synonym Duration = "64 word"

datatype Context = Background

text \<open>The argument \<^verbatim>\<open>value interface{}\<close> handed to \<^verbatim>\<open>redis.Client.Set\<close> by the setters.\<close>

datatype redis_arg =
    ArgString string
  | ArgInt go_int
  | ArgInt64 int64
  | ArgBool bool
  | ArgFloat32 float32
  | ArgFloat64 float64

section \<open>The external collaborators\<close>

text \<open>
  \<^verbatim>\<open>encoding/json\<close>, \<^verbatim>\<open>go-redis\<close>, \<^verbatim>\<open>zap\<close> and \<^verbatim>\<open>log\<close> are libraries the package
  imports. Their behaviour is not fixed here: the JSON codec and the store client are
  parameters, and every theorem holds for all of them.
\<close>

record 'v json =
  json_Marshal :: "'v option \<Rightarrow> string \<times> error option"
  json_Unmarshal :: "string \<Rightarrow> 'v option \<Rightarrow> 'v option \<times> error option"

text \<open>
  The command objects the client returns. A \<^verbatim>\<open>*redis.StringCmd\<close> is read through one of
  its accessor methods (\<^verbatim>\<open>Result\<close>, \<^verbatim>\<open>Int\<close>, \<^verbatim>\<open>Int64\<close>, \<^verbatim>\<open>Bool\<close>, \<^verbatim>\<open>Float32\<close>,
  \<^verbatim>\<open>Float64\<close>); the record holds what each of them returns.
\<close>

record StatusCmd =
  StatusCmd_val :: string
  StatusCmd_err :: "error option"

record StringCmd =
  StringCmd_Result :: "string \<times> error option"
  StringCmd_Int :: "go_int \<times> error option"
  StringCmd_Int64 :: "int64 \<times> error option"
  StringCmd_Bool :: "bool \<times> error option"
  StringCmd_Float32 :: "float32 \<times> error option"
  StringCmd_Float64 :: "float64 \<times> error option"

record IntCmd =
  IntCmd_val :: int64
  IntCmd_err :: "error option"

definition NewStatusCmd :: "Context \<Rightarrow> StatusCmd" where
  "NewStatusCmd ctx = \<lparr>StatusCmd_val = [], StatusCmd_err = None\<rparr>"

definition SetErr :: "StatusCmd \<Rightarrow> error \<Rightarrow> StatusCmd" where
  "SetErr cmd e = cmd\<lparr>StatusCmd_err := Some e\<rparr>"

text \<open>
  The store client: each method takes the state \<open>'s\<close> of the remote store and returns
  its command object and the new state.
\<close>

record 's Client =
  Client_Set :: "Context \<Rightarrow> string \<Rightarrow> redis_arg \<Rightarrow> Duration \<Rightarrow> 's \<Rightarrow> StatusCmd \<times> 's"
  Client_Get :: "Context \<Rightarrow> string \<Rightarrow> 's \<Rightarrow> StringCmd \<times> 's"
  Client_Del :: "Context \<Rightarrow> string list \<Rightarrow> 's \<Rightarrow> IntCmd \<times> 's"
  Client_Exists :: "Context \<Rightarrow> string list \<Rightarrow> 's \<Rightarrow> IntCmd \<times> 's"

section \<open>The handle\<close>

text \<open>
  \<^verbatim>\<open>Db\<close> and \<^verbatim>\<open>Logger\<close> are pointers, nil until attached. A logger is known by its
  address.
\<close>

record Options =
  Prefix :: string

record 's RadCache =
  Ctx :: Context
  Db :: "'s Client option"
  Logger :: "nat option"
  Options :: Options

text \<open>Lines 24 to 46 of \<^verbatim>\<open>cache.go\<close>: the constructors and the two methods that attach.\<close>

definition NewDefault :: "'s RadCache" where
  "NewDefault = \<lparr>Ctx = Background, Db = None, Logger = None,
     Options = \<lparr>Prefix = ''rad_''\<rparr>\<rparr>"

definition New :: "Options \<Rightarrow> 's RadCache" where
  "New opt = \<lparr>Ctx = Background, Db = None, Logger = None, Options = opt\<rparr>"

definition UseRedis :: "'s RadCache \<Rightarrow> 's Client option \<Rightarrow> 's RadCache" where
  "UseRedis rad client = rad\<lparr>Db := client\<rparr>"

definition UseZapLogger :: "'s RadCache \<Rightarrow> nat option \<Rightarrow> 's RadCache" where
  "UseZapLogger rad logger = rad\<lparr>Logger := logger\<rparr>"

section \<open>Effects\<close>

text \<open>
  What an operation does outside the handle: it changes the remote store, issues requests
  to it (recorded oldest first), writes to a zap logger, or writes to the standard logger.
  An operation returns to its caller, or the process exits (\<^verbatim>\<open>log.Fatal\<close> prints and
  calls \<^verbatim>\<open>os.Exit(1)\<close>), or it panics on a nil pointer.
\<close>

datatype request =
    SET Context string redis_arg Duration
  | GET Context string
  | DEL Context "string list"
  | EXISTS Context "string list"

record 's world =
  store :: 's
  requests :: "request list"
  zap :: "nat \<Rightarrow> error list"
  stdlog :: "error list"

datatype 'a outcome = Returns 'a | Exited | Panicked

definition ret :: "'a \<Rightarrow> 's world \<Rightarrow> 'a outcome \<times> 's world" where
  "ret a w = (Returns a, w)"

definition andThen ::
  "('s world \<Rightarrow> 'a outcome \<times> 's world) \<Rightarrow> ('a \<Rightarrow> 's world \<Rightarrow> 'b outcome \<times> 's world)
    \<Rightarrow> 's world \<Rightarrow> 'b outcome \<times> 's world" where
  "andThen m f w =
     (case m w of
        (Returns a, w') \<Rightarrow> f a w'
      | (Exited, w') \<Rightarrow> (Exited, w')
      | (Panicked, w') \<Rightarrow> (Panicked, w'))"

text \<open>
  A method call through \<^verbatim>\<open>rad.Db\<close>: a nil \<^verbatim>\<open>*redis.Client\<close> panics, an attached one
  receives the request.
\<close>

definition Db_Set ::
  "'s RadCache \<Rightarrow> Context \<Rightarrow> string \<Rightarrow> redis_arg \<Rightarrow> Duration
    \<Rightarrow> 's world \<Rightarrow> StatusCmd outcome \<times> 's world" where
  "Db_Set rad ctx k v exp w =
     (case Db rad of
        None \<Rightarrow> (Panicked, w)
      | Some c \<Rightarrow>
          (case Client_Set c ctx k v exp (store w) of
             (cmd, s') \<Rightarrow>
               (Returns cmd, w\<lparr>store := s', requests := requests w @ [SET ctx k v exp]\<rparr>)))"

definition Db_Get ::
  "'s RadCache \<Rightarrow> Context \<Rightarrow> string \<Rightarrow> 's world \<Rightarrow> StringCmd outcome \<times> 's world" where
  "Db_Get rad ctx k w =
     (case Db rad of
        None \<Rightarrow> (Panicked, w)
      | Some c \<Rightarrow>
          (case Client_Get c ctx k (store w) of
             (cmd, s') \<Rightarrow>
               (Returns cmd, w\<lparr>store := s', requests := requests w @ [GET ctx k]\<rparr>)))"

definition Db_Del ::
  "'s RadCache \<Rightarrow> Context \<Rightarrow> string list \<Rightarrow> 's world \<Rightarrow> IntCmd outcome \<times> 's world" where
  "Db_Del rad ctx ks w =
     (case Db rad of
        None \<Rightarrow> (Panicked, w)
      | Some c \<Rightarrow>
          (case Client_Del c ctx ks (store w) of
             (cmd, s') \<Rightarrow>
               (Returns cmd, w\<lparr>store := s', requests := requests w @ [DEL ctx ks]\<rparr>)))"

definition Db_Exists ::
  "'s RadCache \<Rightarrow> Context \<Rightarrow> string list \<Rightarrow> 's world \<Rightarrow> IntCmd outcome \<times> 's world" where
  "Db_Exists rad ctx ks w =
     (case Db rad of
        None \<Rightarrow> (Panicked, w)
      | Some c \<Rightarrow>
          (case Client_Exists c ctx ks (store w) of
             (cmd, s') \<Rightarrow>
               (Returns cmd, w\<lparr>store := s', requests := requests w @ [EXISTS ctx ks]\<rparr>)))"

text \<open>
  \<^verbatim>\<open>logger.Error(err)\<close> on a \<^verbatim>\<open>*zap.SugaredLogger\<close>: the logger at that address receives
  the value; the method reads the receiver's fields, so a nil receiver panics.
  \<^verbatim>\<open>log.Fatal(err)\<close> prints to the standard logger and exits.
\<close>

definition Logger_Error :: "nat option \<Rightarrow> error \<Rightarrow> 's world \<Rightarrow> unit outcome \<times> 's world" where
  "Logger_Error logger err w =
     (case logger of
        None \<Rightarrow> (Panicked, w)
      | Some l \<Rightarrow> (Returns (), w\<lparr>zap := (zap w)(l := zap w l @ [err])\<rparr>))"

definition log_Fatal :: "error \<Rightarrow> 's world \<Rightarrow> unit outcome \<times> 's world" where
  "log_Fatal err w = (Exited, w\<lparr>stdlog := stdlog w @ [err]\<rparr>)"

section \<open>The methods of RadCache\<close>

text \<open>
  Each method takes the handle first, as its receiver; \<^verbatim>\<open>Marshal\<close>, \<^verbatim>\<open>UnMarshal\<close>,
  \<^verbatim>\<open>Set\<close> and \<^verbatim>\<open>Get\<close> also take the codec \<open>J\<close> that stands for \<^verbatim>\<open>encoding/json\<close>.
  Lines 49 to 65: \<^verbatim>\<open>json.Unmarshal\<close> writes into \<^verbatim>\<open>result\<close>, a nil interface at first.
\<close>

definition Marshal :: "'v json \<Rightarrow> 's RadCache \<Rightarrow> 'v option \<Rightarrow> string \<times> error option" where
  "Marshal J rad val =
     (case json_Marshal J val of
        (re, Some err) \<Rightarrow> ([], Some err)
      | (re, None) \<Rightarrow> (re, None))"

definition UnMarshal :: "'v json \<Rightarrow> 's RadCache \<Rightarrow> string \<Rightarrow> 'v option \<times> error option" where
  "UnMarshal J rad val =
     (case json_Unmarshal J val None of
        (result, Some err) \<Rightarrow> (None, Some err)
      | (result, None) \<Rightarrow> (result, None))"

text \<open>Lines 68 to 74.\<close>

definition Error :: "'s RadCache \<Rightarrow> error \<Rightarrow> 's world \<Rightarrow> unit outcome \<times> 's world" where
  "Error rad err =
     (if Logger rad \<noteq> None then Logger_Error (Logger rad) err else log_Fatal err)"

text \<open>
  Lines 77 to 111. On a serialization failure \<^verbatim>\<open>Set\<close> builds a command, sets its error,
  calls \<^verbatim>\<open>rad.Error\<close> and returns the command; otherwise, like every typed setter, it
  returns what \<^verbatim>\<open>rad.Db.Set\<close> returns.
\<close>

definition Set ::
  "'v json \<Rightarrow> 's RadCache \<Rightarrow> string \<Rightarrow> 'v option \<Rightarrow> Duration
    \<Rightarrow> 's world \<Rightarrow> StatusCmd outcome \<times> 's world" where
  "Set J rad key value exp =
     (case Marshal J rad value of
        (val, Some err) \<Rightarrow>
          andThen (Error rad err) (\<lambda>_. ret (SetErr (NewStatusCmd (Ctx rad)) err))
      | (val, None) \<Rightarrow>
          Db_Set rad (Ctx rad) (Prefix (Options rad) @ key) (ArgString val) exp)"

definition SetString ::
  "'s RadCache \<Rightarrow> string \<Rightarrow> string \<Rightarrow> Duration \<Rightarrow> 's world \<Rightarrow> StatusCmd outcome \<times> 's world" where
  "SetString rad key value exp =
     Db_Set rad (Ctx rad) (Prefix (Options rad) @ key) (ArgString value) exp"

definition SetInt ::
  "'s RadCache \<Rightarrow> string \<Rightarrow> go_int \<Rightarrow> Duration \<Rightarrow> 's world \<Rightarrow> StatusCmd outcome \<times> 's world" where
  "SetInt rad key value exp =
     Db_Set rad (Ctx rad) (Prefix (Options rad) @ key) (ArgInt value) exp"

definition SetInt64 ::
  "'s RadCache \<Rightarrow> string \<Rightarrow> int64 \<Rightarrow> Duration \<Rightarrow> 's world \<Rightarrow> StatusCmd outcome \<times> 's world" where
  "SetInt64 rad key value exp =
     Db_Set rad (Ctx rad) (Prefix (Options rad) @ key) (ArgInt64 value) exp"

definition SetBool ::
  "'s RadCache \<Rightarrow> string \<Rightarrow> bool \<Rightarrow> Duration \<Rightarrow> 's world \<Rightarrow> StatusCmd outcome \<times> 's world" where
  "SetBool rad key value exp =
     Db_Set rad (Ctx rad) (Prefix (Options rad) @ key) (ArgBool value) exp"

definition SetFloat32 ::
  "'s RadCache \<Rightarrow> string \<Rightarrow> float32 \<Rightarrow> Duration \<Rightarrow> 's world \<Rightarrow> StatusCmd outcome \<times> 's world" where
  "SetFloat32 rad key value exp =
     Db_Set rad (Ctx rad) (Prefix (Options rad) @ key) (ArgFloat32 value) exp"

definition SetFloat64 ::
  "'s RadCache \<Rightarrow> string \<Rightarrow> float64 \<Rightarrow> Duration \<Rightarrow> 's world \<Rightarrow> StatusCmd outcome \<times> 's world" where
  "SetFloat64 rad key value exp =
     Db_Set rad (Ctx rad) (Prefix (Options rad) @ key) (ArgFloat64 value) exp"

text \<open>
  Lines 114 to 223. \<^verbatim>\<open>Get\<close> and \<^verbatim>\<open>GetString\<close> pass the error to \<^verbatim>\<open>rad.Error\<close>; the
  other typed getters call \<^verbatim>\<open>rad.Logger.Error\<close> themselves.
\<close>

definition Get ::
  "'v json \<Rightarrow> 's RadCache \<Rightarrow> string
    \<Rightarrow> 's world \<Rightarrow> ('v option \<times> error option) outcome \<times> 's world" where
  "Get J rad key =
     andThen (Db_Get rad (Ctx rad) (Prefix (Options rad) @ key)) (\<lambda>cmd.
       case StringCmd_Result cmd of
         (result, Some err) \<Rightarrow> andThen (Error rad err) (\<lambda>_. ret (None, Some err))
       | (result, None) \<Rightarrow> ret (UnMarshal J rad result))"

definition GetString ::
  "'s RadCache \<Rightarrow> string \<Rightarrow> 's world \<Rightarrow> (string \<times> error option) outcome \<times> 's world" where
  "GetString rad key =
     andThen (Db_Get rad (Ctx rad) (Prefix (Options rad) @ key)) (\<lambda>cmd.
       case StringCmd_Result cmd of
         (result, Some err) \<Rightarrow> andThen (Error rad err) (\<lambda>_. ret ([], Some err))
       | (result, None) \<Rightarrow> ret (result, None))"

definition GetStringOrDefault ::
  "'s RadCache \<Rightarrow> string \<Rightarrow> string \<Rightarrow> 's world \<Rightarrow> string outcome \<times> 's world" where
  "GetStringOrDefault rad key val =
     andThen (GetString rad key) (\<lambda>(result, err).
       if err \<noteq> None then ret val else ret result)"

definition GetInt ::
  "'s RadCache \<Rightarrow> string \<Rightarrow> 's world \<Rightarrow> (go_int \<times> error option) outcome \<times> 's world" where
  "GetInt rad key =
     andThen (Db_Get rad (Ctx rad) (Prefix (Options rad) @ key)) (\<lambda>cmd.
       case StringCmd_Int cmd of
         (result, Some err) \<Rightarrow>
           andThen (Logger_Error (Logger rad) err) (\<lambda>_. ret (- 1, Some err))
       | (result, None) \<Rightarrow> ret (result, None))"

definition GetIntOrDefault ::
  "'s RadCache \<Rightarrow> string \<Rightarrow> go_int \<Rightarrow> 's world \<Rightarrow> go_int outcome \<times> 's world" where
  "GetIntOrDefault rad key val =
     andThen (GetInt rad key) (\<lambda>(result, err).
       if err \<noteq> None then ret val else ret result)"

definition GetInt64 ::
  "'s RadCache \<Rightarrow> string \<Rightarrow> 's world \<Rightarrow> (int64 \<times> error option) outcome \<times> 's world" where
  "GetInt64 rad key =
     andThen (Db_Get rad (Ctx rad) (Prefix (Options rad) @ key)) (\<lambda>cmd.
       case StringCmd_Int64 cmd of
         (result, Some err) \<Rightarrow>
           andThen (Logger_Error (Logger rad) err) (\<lambda>_. ret (- 1, Some err))
       | (result, None) \<Rightarrow> ret (result, None))"

definition GetInt64OrDefault ::
  "'s RadCache \<Rightarrow> string \<Rightarrow> int64 \<Rightarrow> 's world \<Rightarrow> int64 outcome \<times> 's world" where
  "GetInt64OrDefault rad key val =
     andThen (GetInt64 rad key) (\<lambda>(result, err).
       if err \<noteq> None then ret val else ret result)"

definition GetBool ::
  "'s RadCache \<Rightarrow> string \<Rightarrow> 's world \<Rightarrow> (bool \<times> error option) outcome \<times> 's world" where
  "GetBool rad key =
     andThen (Db_Get rad (Ctx rad) (Prefix (Options rad) @ key)) (\<lambda>cmd.
       case StringCmd_Bool cmd of
         (result, Some err) \<Rightarrow>
           andThen (Logger_Error (Logger rad) err) (\<lambda>_. ret (False, Some err))
       | (result, None) \<Rightarrow> ret (result, None))"

definition GetBoolOrDefault ::
  "'s RadCache \<Rightarrow> string \<Rightarrow> bool \<Rightarrow> 's world \<Rightarrow> bool outcome \<times> 's world" where
  "GetBoolOrDefault rad key val =
     andThen (GetBool rad key) (\<lambda>(result, err).
       if err \<noteq> None then ret val else ret result)"

text \<open>The float literal \<^verbatim>\<open>0.0\<close> is the all-zero bit pattern.\<close>

definition GetFloat32 ::
  "'s RadCache \<Rightarrow> string \<Rightarrow> 's world \<Rightarrow> (float32 \<times> error option) outcome \<times> 's world" where
  "GetFloat32 rad key =
     andThen (Db_Get rad (Ctx rad) (Prefix (Options rad) @ key)) (\<lambda>cmd.
       case StringCmd_Float32 cmd of
         (result, Some err) \<Rightarrow>
           andThen (Logger_Error (Logger rad) err) (\<lambda>_. ret (0, Some err))
       | (result, None) \<Rightarrow> ret (result, None))"

definition GetFloat32OrDefault ::
  "'s RadCache \<Rightarrow> string \<Rightarrow> float32 \<Rightarrow> 's world \<Rightarrow> float32 outcome \<times> 's world" where
  "GetFloat32OrDefault rad key val =
     andThen (GetFloat32 rad key) (\<lambda>(result, err).
       if err \<noteq> None then ret val else ret result)"

definition GetFloat64 ::
  "'s RadCache \<Rightarrow> string \<Rightarrow> 's world \<Rightarrow> (float64 \<times> error option) outcome \<times> 's world" where
  "GetFloat64 rad key =
     andThen (Db_Get rad (Ctx rad) (Prefix (Options rad) @ key)) (\<lambda>cmd.
       case StringCmd_Float64 cmd of
         (result, Some err) \<Rightarrow>
           andThen (Logger_Error (Logger rad) err) (\<lambda>_. ret (0, Some err))
       | (result, None) \<Rightarrow> ret (result, None))"

definition GetFloat64OrDefault ::
  "'s RadCache \<Rightarrow> string \<Rightarrow> float64 \<Rightarrow> 's world \<Rightarrow> float64 outcome \<times> 's world" where
  "GetFloat64OrDefault rad key val =
     andThen (GetFloat64 rad key) (\<lambda>(result, err).
       if err \<noteq> None then ret val else ret result)"

text \<open>Lines 226 to 255.\<close>

definition Del :: "'s RadCache \<Rightarrow> string \<Rightarrow> 's world \<Rightarrow> error option outcome \<times> 's world" where
  "Del rad key =
     andThen (Db_Del rad (Ctx rad) [Prefix (Options rad) @ key]) (\<lambda>cmd.
       case IntCmd_err cmd of
         Some err \<Rightarrow> andThen (Error rad err) (\<lambda>_. ret (Some err))
       | None \<Rightarrow> ret None)"

text \<open>The loop of \<^verbatim>\<open>DelAny\<close>: \<^verbatim>\<open>keys\<close> grows by one prefixed key per element.\<close>

fun DelAny_keys :: "'s RadCache \<Rightarrow> string list \<Rightarrow> string list \<Rightarrow> string list" where
  "DelAny_keys rad keys [] = keys"
| "DelAny_keys rad keys (v # key) = DelAny_keys rad (keys @ [Prefix (Options rad) @ v]) key"

definition DelAny ::
  "'s RadCache \<Rightarrow> string list \<Rightarrow> 's world \<Rightarrow> error option outcome \<times> 's world" where
  "DelAny rad key =
     andThen (Db_Del rad (Ctx rad) (DelAny_keys rad [] key)) (\<lambda>cmd.
       case IntCmd_err cmd of
         Some err \<Rightarrow> andThen (Error rad err) (\<lambda>_. ret (Some err))
       | None \<Rightarrow> ret None)"

definition Exist :: "'s RadCache \<Rightarrow> string \<Rightarrow> 's world \<Rightarrow> bool outcome \<times> 's world" where
  "Exist rad key =
     andThen (Db_Exists rad (Ctx rad) [Prefix (Options rad) @ key]) (\<lambda>result.
       if IntCmd_val result = 1 then ret True else ret False)"

section \<open>A store, a codec and a world to run the methods on\<close>

text \<open>
  A scripted client: it answers every request with the command object it was built with
  and counts the requests in the store. With \<open>failing_client\<close> every answer carries
  the given error.
\<close>

definition scripted_client :: "StatusCmd \<Rightarrow> StringCmd \<Rightarrow> IntCmd \<Rightarrow> IntCmd \<Rightarrow> nat Client" where
  "scripted_client status string del ex =
     \<lparr>Client_Set = (\<lambda>ctx k v exp s. (status, Suc s)),
      Client_Get = (\<lambda>ctx k s. (string, Suc s)),
      Client_Del = (\<lambda>ctx ks s. (del, Suc s)),
      Client_Exists = (\<lambda>ctx ks s. (ex, Suc s))\<rparr>"

definition failing_cmd :: "error \<Rightarrow> StringCmd" where
  "failing_cmd e =
     \<lparr>StringCmd_Result = ([], Some e), StringCmd_Int = (0, Some e),
      StringCmd_Int64 = (0, Some e), StringCmd_Bool = (False, Some e),
      StringCmd_Float32 = (0, Some e), StringCmd_Float64 = (0, Some e)\<rparr>"

definition failing_client :: "error \<Rightarrow> nat Client" where
  "failing_client e =
     scripted_client \<lparr>StatusCmd_val = [], StatusCmd_err = Some e\<rparr> (failing_cmd e)
       \<lparr>IntCmd_val = 0, IntCmd_err = Some e\<rparr> \<lparr>IntCmd_val = 0, IntCmd_err = Some e\<rparr>"

text \<open>The answer to a \<^verbatim>\<open>GET\<close> of a key that holds the text \<^verbatim>\<open>42\<close>.\<close>

definition cmd_42 :: StringCmd where
  "cmd_42 =
     \<lparr>StringCmd_Result = (''42'', None), StringCmd_Int = (42, None),
      StringCmd_Int64 = (42, None), StringCmd_Bool = (False, Some (Err ''strconv.ParseBool'')),
      StringCmd_Float32 = (0x42280000, None), StringCmd_Float64 = (0x4045000000000000, None)\<rparr>"

definition answering_client :: "nat Client" where
  "answering_client =
     scripted_client \<lparr>StatusCmd_val = ''OK'', StatusCmd_err = None\<rparr> cmd_42
       \<lparr>IntCmd_val = 1, IntCmd_err = None\<rparr> \<lparr>IntCmd_val = 1, IntCmd_err = None\<rparr>"



text \<open>
  Two values to hand to \<^verbatim>\<open>Set\<close>: a Go string and a Go channel. A scripted codec, like the
  scripted client: it is a stand-in that answers every call with the results it was built
  with, not a model of \<^verbatim>\<open>encoding/json\<close>. Each run below uses the one built with what the
  library returns for the value and the text of that run:
  \<^verbatim>\<open>json.Marshal(make(chan int))\<close> fails with an unsupported type and \<^verbatim>\<open>json.Unmarshal\<close>
  of the empty text with an unexpected end of input; \<^verbatim>\<open>json.Marshal("hello")\<close> gives the
  text between quotes, and \<^verbatim>\<open>json.Unmarshal\<close> of the text \<^verbatim>\<open>hello\<close>, which is not JSON,
  fails on its first character.
\<close>

datatype sample = Text string | Chan

definition scripted_json :: "string \<times> error option \<Rightarrow> 'v option \<times> error option \<Rightarrow> 'v json" where
  "scripted_json encoded decoded =
     \<lparr>json_Marshal = (\<lambda>v. encoded), json_Unmarshal = (\<lambda>data old. decoded)\<rparr>"

definition json_for_chan :: "sample json" where
  "json_for_chan =
     scripted_json ([], Some (Err ''json: unsupported type: chan int''))
       (None, Some (Err ''unexpected end of JSON input''))"

definition json_for_hello :: "sample json" where
  "json_for_hello =
     scripted_json (CHR 0x22 # ''hello'' @ [CHR 0x22], None)
       (None, Some (Err ''invalid character''))"

definition w0 :: "nat world" where
  "w0 = \<lparr>store = 0, requests = [], zap = (\<lambda>_. []), stdlog = []\<rparr>"

text \<open>Handles: the default one with a store, and the same with logger 7 attached.\<close>

definition rad_quiet :: "nat Client \<Rightarrow> nat RadCache" where
  "rad_quiet c = UseRedis NewDefault (Some c)"

definition rad_logged :: "nat Client \<Rightarrow> nat RadCache" where
  "rad_logged c = UseZapLogger (UseRedis NewDefault (Some c)) (Some 7)"

section \<open>Running each method against an attached store\<close>

text \<open>
  The world after a request \<open>r\<close> that left the store in state \<open>s\<close>, and after a value
  reached logger \<open>l\<close>.
\<close>

abbreviation sent :: "'s world \<Rightarrow> 's \<Rightarrow> request \<Rightarrow> 's world" where
  "sent w s r \<equiv> w\<lparr>store := s, requests := requests w @ [r]\<rparr>"

abbreviation logged :: "'s world \<Rightarrow> nat \<Rightarrow> error \<Rightarrow> 's world" where
  "logged w l e \<equiv> w\<lparr>zap := (zap w)(l := zap w l @ [e])\<rparr>"

lemmas effect_defs = andThen_def ret_def Logger_Error_def log_Fatal_def Error_def

lemma Db_Set_attached:
  "Db rad = Some c \<Longrightarrow> Client_Set c ctx k v exp (store w) = (cmd, s') \<Longrightarrow>
   Db_Set rad ctx k v exp w = (Returns cmd, sent w s' (SET ctx k v exp))"
  by (simp add: Db_Set_def)

lemma Db_Get_attached:
  "Db rad = Some c \<Longrightarrow> Client_Get c ctx k (store w) = (cmd, s') \<Longrightarrow>
   Db_Get rad ctx k w = (Returns cmd, sent w s' (GET ctx k))"
  by (simp add: Db_Get_def)

lemma Db_Del_attached:
  "Db rad = Some c \<Longrightarrow> Client_Del c ctx ks (store w) = (cmd, s') \<Longrightarrow>
   Db_Del rad ctx ks w = (Returns cmd, sent w s' (DEL ctx ks))"
  by (simp add: Db_Del_def)

lemma Db_Exists_attached:
  "Db rad = Some c \<Longrightarrow> Client_Exists c ctx ks (store w) = (cmd, s') \<Longrightarrow>
   Db_Exists rad ctx ks w = (Returns cmd, sent w s' (EXISTS ctx ks))"
  by (simp add: Db_Exists_def)

lemma Error_run:
  "Error rad err w =
     (case Logger rad of
        None \<Rightarrow> (Exited, w\<lparr>stdlog := stdlog w @ [err]\<rparr>)
      | Some l \<Rightarrow> (Returns (), logged w l err))"
  by (simp add: effect_defs split: option.splits)

lemma DelAny_keys_map:
  "DelAny_keys rad keys key = keys @ map (\<lambda>v. Prefix (Options rad) @ v) key"
  by (induction key arbitrary: keys) simp_all

lemma Get_run:
  assumes "Db rad = Some c"
    and "Client_Get c (Ctx rad) (Prefix (Options rad) @ key) (store w) = (cmd, s')"
  shows "Get J rad key w =
     (case StringCmd_Result cmd of
        (result, None) \<Rightarrow>
          (Returns (UnMarshal J rad result), sent w s' (GET (Ctx rad) (Prefix (Options rad) @ key)))
      | (result, Some err) \<Rightarrow>
          (case Logger rad of
             None \<Rightarrow>
               (Exited, (sent w s' (GET (Ctx rad) (Prefix (Options rad) @ key)))
                  \<lparr>stdlog := stdlog w @ [err]\<rparr>)
           | Some l \<Rightarrow>
               (Returns (None, Some err),
                logged (sent w s' (GET (Ctx rad) (Prefix (Options rad) @ key))) l err)))"
  by (simp add: Get_def andThen_def ret_def Db_Get_attached [OF assms] Error_run
      split: prod.splits option.splits)

lemma GetString_run:
  assumes "Db rad = Some c"
    and "Client_Get c (Ctx rad) (Prefix (Options rad) @ key) (store w) = (cmd, s')"
  shows "GetString rad key w =
     (case StringCmd_Result cmd of
        (result, None) \<Rightarrow>
          (Returns (result, None), sent w s' (GET (Ctx rad) (Prefix (Options rad) @ key)))
      | (result, Some err) \<Rightarrow>
          (case Logger rad of
             None \<Rightarrow>
               (Exited, (sent w s' (GET (Ctx rad) (Prefix (Options rad) @ key)))
                  \<lparr>stdlog := stdlog w @ [err]\<rparr>)
           | Some l \<Rightarrow>
               (Returns ([], Some err),
                logged (sent w s' (GET (Ctx rad) (Prefix (Options rad) @ key))) l err)))"
  by (simp add: GetString_def andThen_def ret_def Db_Get_attached [OF assms] Error_run
      split: prod.splits option.splits)

lemma GetInt_run:
  assumes "Db rad = Some c"
    and "Client_Get c (Ctx rad) (Prefix (Options rad) @ key) (store w) = (cmd, s')"
  shows "GetInt rad key w =
     (case StringCmd_Int cmd of
        (result, None) \<Rightarrow>
          (Returns (result, None), sent w s' (GET (Ctx rad) (Prefix (Options rad) @ key)))
      | (result, Some err) \<Rightarrow>
          (case Logger rad of
             None \<Rightarrow> (Panicked, sent w s' (GET (Ctx rad) (Prefix (Options rad) @ key)))
           | Some l \<Rightarrow>
               (Returns (- 1, Some err),
                logged (sent w s' (GET (Ctx rad) (Prefix (Options rad) @ key))) l err)))"
  by (simp add: GetInt_def andThen_def ret_def Logger_Error_def Db_Get_attached [OF assms]
      split: prod.splits option.splits)

lemma GetInt64_run:
  assumes "Db rad = Some c"
    and "Client_Get c (Ctx rad) (Prefix (Options rad) @ key) (store w) = (cmd, s')"
  shows "GetInt64 rad key w =
     (case StringCmd_Int64 cmd of
        (result, None) \<Rightarrow>
          (Returns (result, None), sent w s' (GET (Ctx rad) (Prefix (Options rad) @ key)))
      | (result, Some err) \<Rightarrow>
          (case Logger rad of
             None \<Rightarrow> (Panicked, sent w s' (GET (Ctx rad) (Prefix (Options rad) @ key)))
           | Some l \<Rightarrow>
               (Returns (- 1, Some err),
                logged (sent w s' (GET (Ctx rad) (Prefix (Options rad) @ key))) l err)))"
  by (simp add: GetInt64_def andThen_def ret_def Logger_Error_def Db_Get_attached [OF assms]
      split: prod.splits option.splits)

lemma GetBool_run:
  assumes "Db rad = Some c"
    and "Client_Get c (Ctx rad) (Prefix (Options rad) @ key) (store w) = (cmd, s')"
  shows "GetBool rad key w =
     (case StringCmd_Bool cmd of
        (result, None) \<Rightarrow>
          (Returns (result, None), sent w s' (GET (Ctx rad) (Prefix (Options rad) @ key)))
      | (result, Some err) \<Rightarrow>
          (case Logger rad of
             None \<Rightarrow> (Panicked, sent w s' (GET (Ctx rad) (Prefix (Options rad) @ key)))
           | Some l \<Rightarrow>
               (Returns (False, Some err),
                logged (sent w s' (GET (Ctx rad) (Prefix (Options rad) @ key))) l err)))"
  by (simp add: GetBool_def andThen_def ret_def Logger_Error_def Db_Get_attached [OF assms]
      split: prod.splits option.splits)

lemma GetFloat32_run:
  assumes "Db rad = Some c"
    and "Client_Get c (Ctx rad) (Prefix (Options rad) @ key) (store w) = (cmd, s')"
  shows "GetFloat32 rad key w =
     (case StringCmd_Float32 cmd of
        (result, None) \<Rightarrow>
          (Returns (result, None), sent w s' (GET (Ctx rad) (Prefix (Options rad) @ key)))
      | (result, Some err) \<Rightarrow>
          (case Logger rad of
             None \<Rightarrow> (Panicked, sent w s' (GET (Ctx rad) (Prefix (Options rad) @ key)))
           | Some l \<Rightarrow>
               (Returns (0, Some err),
                logged (sent w s' (GET (Ctx rad) (Prefix (Options rad) @ key))) l err)))"
  by (simp add: GetFloat32_def andThen_def ret_def Logger_Error_def Db_Get_attached [OF assms]
      split: prod.splits option.splits)

lemma GetFloat64_run:
  assumes "Db rad = Some c"
    and "Client_Get c (Ctx rad) (Prefix (Options rad) @ key) (store w) = (cmd, s')"
  shows "GetFloat64 rad key w =
     (case StringCmd_Float64 cmd of
        (result, None) \<Rightarrow>
          (Returns (result, None), sent w s' (GET (Ctx rad) (Prefix (Options rad) @ key)))
      | (result, Some err) \<Rightarrow>
          (case Logger rad of
             None \<Rightarrow> (Panicked, sent w s' (GET (Ctx rad) (Prefix (Options rad) @ key)))
           | Some l \<Rightarrow>
               (Returns (0, Some err),
                logged (sent w s' (GET (Ctx rad) (Prefix (Options rad) @ key))) l err)))"
  by (simp add: GetFloat64_def andThen_def ret_def Logger_Error_def Db_Get_attached [OF assms]
      split: prod.splits option.splits)

lemma Del_run:
  assumes "Db rad = Some c"
    and "Client_Del c (Ctx rad) [Prefix (Options rad) @ key] (store w) = (cmd, s')"
  shows "Del rad key w =
     (case IntCmd_err cmd of
        None \<Rightarrow> (Returns None, sent w s' (DEL (Ctx rad) [Prefix (Options rad) @ key]))
      | Some err \<Rightarrow>
          (case Logger rad of
             None \<Rightarrow>
               (Exited, (sent w s' (DEL (Ctx rad) [Prefix (Options rad) @ key]))
                  \<lparr>stdlog := stdlog w @ [err]\<rparr>)
           | Some l \<Rightarrow>
               (Returns (Some err),
                logged (sent w s' (DEL (Ctx rad) [Prefix (Options rad) @ key])) l err)))"
  by (simp add: Del_def andThen_def ret_def Db_Del_attached [OF assms] Error_run
      split: option.splits)

lemma DelAny_run:
  assumes "Db rad = Some c"
    and "Client_Del c (Ctx rad) (map (\<lambda>v. Prefix (Options rad) @ v) keys) (store w) = (cmd, s')"
  shows "DelAny rad keys w =
     (case IntCmd_err cmd of
        None \<Rightarrow>
          (Returns None, sent w s' (DEL (Ctx rad) (map (\<lambda>v. Prefix (Options rad) @ v) keys)))
      | Some err \<Rightarrow>
          (case Logger rad of
             None \<Rightarrow>
               (Exited, (sent w s' (DEL (Ctx rad) (map (\<lambda>v. Prefix (Options rad) @ v) keys)))
                  \<lparr>stdlog := stdlog w @ [err]\<rparr>)
           | Some l \<Rightarrow>
               (Returns (Some err),
                logged (sent w s' (DEL (Ctx rad) (map (\<lambda>v. Prefix (Options rad) @ v) keys)))
                  l err)))"
  by (simp add: DelAny_def DelAny_keys_map andThen_def ret_def Db_Del_attached [OF assms]
      Error_run split: option.splits)

lemma Exist_run:
  assumes "Db rad = Some c"
    and "Client_Exists c (Ctx rad) [Prefix (Options rad) @ key] (store w) = (cmd, s')"
  shows "Exist rad key w =
     (Returns (IntCmd_val cmd = 1), sent w s' (EXISTS (Ctx rad) [Prefix (Options rad) @ key]))"
  by (simp add: Exist_def andThen_def ret_def Db_Exists_attached [OF assms])

lemma Set_marshal_failure_run:
  assumes "Marshal J rad value = (val, Some err)"
  shows "Set J rad key value exp w =
     (case Logger rad of
        None \<Rightarrow> (Exited, w\<lparr>stdlog := stdlog w @ [err]\<rparr>)
      | Some l \<Rightarrow> (Returns \<lparr>StatusCmd_val = [], StatusCmd_err = Some err\<rparr>, logged w l err))"
  by (simp add: Set_def assms andThen_def ret_def Error_run SetErr_def NewStatusCmd_def
      split: option.splits)

text \<open>The fallback getters add no effect of their own to the getter they call.\<close>

lemma GetStringOrDefault_run:
  "GetStringOrDefault rad key val w =
     (case GetString rad key w of
        (Returns (result, err), w') \<Rightarrow> (Returns (if err \<noteq> None then val else result), w')
      | (Exited, w') \<Rightarrow> (Exited, w')
      | (Panicked, w') \<Rightarrow> (Panicked, w'))"
  by (simp add: GetStringOrDefault_def andThen_def ret_def split: prod.splits outcome.splits)

lemma GetIntOrDefault_run:
  "GetIntOrDefault rad key val w =
     (case GetInt rad key w of
        (Returns (result, err), w') \<Rightarrow> (Returns (if err \<noteq> None then val else result), w')
      | (Exited, w') \<Rightarrow> (Exited, w')
      | (Panicked, w') \<Rightarrow> (Panicked, w'))"
  by (simp add: GetIntOrDefault_def andThen_def ret_def split: prod.splits outcome.splits)

lemma GetInt64OrDefault_run:
  "GetInt64OrDefault rad key val w =
     (case GetInt64 rad key w of
        (Returns (result, err), w') \<Rightarrow> (Returns (if err \<noteq> None then val else result), w')
      | (Exited, w') \<Rightarrow> (Exited, w')
      | (Panicked, w') \<Rightarrow> (Panicked, w'))"
  by (simp add: GetInt64OrDefault_def andThen_def ret_def split: prod.splits outcome.splits)

lemma GetBoolOrDefault_run:
  "GetBoolOrDefault rad key val w =
     (case GetBool rad key w of
        (Returns (result, err), w') \<Rightarrow> (Returns (if err \<noteq> None then val else result), w')
      | (Exited, w') \<Rightarrow> (Exited, w')
      | (Panicked, w') \<Rightarrow> (Panicked, w'))"
  by (simp add: GetBoolOrDefault_def andThen_def ret_def split: prod.splits outcome.splits)

lemma GetFloat32OrDefault_run:
  "GetFloat32OrDefault rad key val w =
     (case GetFloat32 rad key w of
        (Returns (result, err), w') \<Rightarrow> (Returns (if err \<noteq> None then val else result), w')
      | (Exited, w') \<Rightarrow> (Exited, w')
      | (Panicked, w') \<Rightarrow> (Panicked, w'))"
  by (simp add: GetFloat32OrDefault_def andThen_def ret_def split: prod.splits outcome.splits)

lemma GetFloat64OrDefault_run:
  "GetFloat64OrDefault rad key val w =
     (case GetFloat64 rad key w of
        (Returns (result, err), w') \<Rightarrow> (Returns (if err \<noteq> None then val else result), w')
      | (Exited, w') \<Rightarrow> (Exited, w')
      | (Panicked, w') \<Rightarrow> (Panicked, w'))"
  by (simp add: GetFloat64OrDefault_def andThen_def ret_def split: prod.splits outcome.splits)

lemmas OrDefault_run = GetStringOrDefault_run GetIntOrDefault_run GetInt64OrDefault_run
  GetBoolOrDefault_run GetFloat32OrDefault_run GetFloat64OrDefault_run

text \<open>The requests a method leaves behind, whatever the store answers.\<close>

lemma setter_requests:
  assumes "Db rad = Some c"
  shows "requests (snd (Db_Set rad ctx k v exp w)) = requests w @ [SET ctx k v exp]"
  by (simp add: Db_Set_def assms split: prod.splits)

lemma Get_requests:
  assumes "Db rad = Some c"
  shows "requests (snd (Get J rad key w))
    = requests w @ [GET (Ctx rad) (Prefix (Options rad) @ key)]"
proof (cases "Client_Get c (Ctx rad) (Prefix (Options rad) @ key) (store w)")
  case (Pair cmd s')
  show ?thesis
    by (simp add: Get_run [OF assms Pair] split: prod.splits option.splits)
qed

lemma GetString_requests:
  assumes "Db rad = Some c"
  shows "requests (snd (GetString rad key w))
    = requests w @ [GET (Ctx rad) (Prefix (Options rad) @ key)]"
proof (cases "Client_Get c (Ctx rad) (Prefix (Options rad) @ key) (store w)")
  case (Pair cmd s')
  show ?thesis
    by (simp add: GetString_run [OF assms Pair] split: prod.splits option.splits)
qed

lemma GetInt_requests:
  assumes "Db rad = Some c"
  shows "requests (snd (GetInt rad key w))
    = requests w @ [GET (Ctx rad) (Prefix (Options rad) @ key)]"
proof (cases "Client_Get c (Ctx rad) (Prefix (Options rad) @ key) (store w)")
  case (Pair cmd s')
  show ?thesis
    by (simp add: GetInt_run [OF assms Pair] split: prod.splits option.splits)
qed

lemma GetInt64_requests:
  assumes "Db rad = Some c"
  shows "requests (snd (GetInt64 rad key w))
    = requests w @ [GET (Ctx rad) (Prefix (Options rad) @ key)]"
proof (cases "Client_Get c (Ctx rad) (Prefix (Options rad) @ key) (store w)")
  case (Pair cmd s')
  show ?thesis
    by (simp add: GetInt64_run [OF assms Pair] split: prod.splits option.splits)
qed

lemma GetBool_requests:
  assumes "Db rad = Some c"
  shows "requests (snd (GetBool rad key w))
    = requests w @ [GET (Ctx rad) (Prefix (Options rad) @ key)]"
proof (cases "Client_Get c (Ctx rad) (Prefix (Options rad) @ key) (store w)")
  case (Pair cmd s')
  show ?thesis
    by (simp add: GetBool_run [OF assms Pair] split: prod.splits option.splits)
qed

lemma GetFloat32_requests:
  assumes "Db rad = Some c"
  shows "requests (snd (GetFloat32 rad key w))
    = requests w @ [GET (Ctx rad) (Prefix (Options rad) @ key)]"
proof (cases "Client_Get c (Ctx rad) (Prefix (Options rad) @ key) (store w)")
  case (Pair cmd s')
  show ?thesis
    by (simp add: GetFloat32_run [OF assms Pair] split: prod.splits option.splits)
qed

lemma GetFloat64_requests:
  assumes "Db rad = Some c"
  shows "requests (snd (GetFloat64 rad key w))
    = requests w @ [GET (Ctx rad) (Prefix (Options rad) @ key)]"
proof (cases "Client_Get c (Ctx rad) (Prefix (Options rad) @ key) (store w)")
  case (Pair cmd s')
  show ?thesis
    by (simp add: GetFloat64_run [OF assms Pair] split: prod.splits option.splits)
qed

lemma Del_requests:
  assumes "Db rad = Some c"
  shows "requests (snd (Del rad key w))
    = requests w @ [DEL (Ctx rad) [Prefix (Options rad) @ key]]"
proof (cases "Client_Del c (Ctx rad) [Prefix (Options rad) @ key] (store w)")
  case (Pair cmd s')
  show ?thesis
    by (simp add: Del_run [OF assms Pair] split: option.splits)
qed

lemma DelAny_requests:
  assumes "Db rad = Some c"
  shows "requests (snd (DelAny rad keys w))
    = requests w @ [DEL (Ctx rad) (map (\<lambda>v. Prefix (Options rad) @ v) keys)]"
proof (cases "Client_Del c (Ctx rad) (map (\<lambda>v. Prefix (Options rad) @ v) keys) (store w)")
  case (Pair cmd s')
  show ?thesis
    by (simp add: DelAny_run [OF assms Pair] split: option.splits)
qed

lemma Exist_requests:
  assumes "Db rad = Some c"
  shows "requests (snd (Exist rad key w))
    = requests w @ [EXISTS (Ctx rad) [Prefix (Options rad) @ key]]"
proof (cases "Client_Exists c (Ctx rad) [Prefix (Options rad) @ key] (store w)")
  case (Pair cmd s')
  show ?thesis
    by (simp add: Exist_run [OF assms Pair])
qed

lemma OrDefault_world:
  "snd (GetStringOrDefault rad key ds w) = snd (GetString rad key w)"
  "snd (GetIntOrDefault rad key di w) = snd (GetInt rad key w)"
  "snd (GetInt64OrDefault rad key dl w) = snd (GetInt64 rad key w)"
  "snd (GetBoolOrDefault rad key db w) = snd (GetBool rad key w)"
  "snd (GetFloat32OrDefault rad key df w) = snd (GetFloat32 rad key w)"
  "snd (GetFloat64OrDefault rad key dd w) = snd (GetFloat64 rad key w)"
  by (simp_all add: OrDefault_run split: prod.splits outcome.splits)


section \<open>Serialization\<close>

text \<open>
  \<^verbatim>\<open>Marshal\<close> and \<^verbatim>\<open>UnMarshal\<close> add nothing to the codec they wrap: decoding what was
  encoded gives the value back exactly when \<^verbatim>\<open>json.Unmarshal\<close> into an empty interface
  undoes \<^verbatim>\<open>json.Marshal\<close> on that value. Whether it does is a property of
  \<^verbatim>\<open>encoding/json\<close>, which this package does not contain.
\<close>

lemma Marshal_then_UnMarshal:
  "(\<exists>val. Marshal J rad v = (val, None) \<and> UnMarshal J rad val = (v, None)) \<longleftrightarrow>
   (\<exists>re. json_Marshal J v = (re, None) \<and> json_Unmarshal J re None = (v, None))"
proof
  assume "\<exists>val. Marshal J rad v = (val, None) \<and> UnMarshal J rad val = (v, None)"
  then obtain val where m: "Marshal J rad v = (val, None)"
    and u: "UnMarshal J rad val = (v, None)"
    by blast
  from m have "json_Marshal J v = (val, None)"
    by (cases "json_Marshal J v") (simp add: Marshal_def split: option.splits)
  moreover from u have "json_Unmarshal J val None = (v, None)"
    by (cases "json_Unmarshal J val None") (simp add: UnMarshal_def split: option.splits)
  ultimately show "\<exists>re. json_Marshal J v = (re, None) \<and> json_Unmarshal J re None = (v, None)"
    by blast
next
  assume "\<exists>re. json_Marshal J v = (re, None) \<and> json_Unmarshal J re None = (v, None)"
  then obtain re where m: "json_Marshal J v = (re, None)"
    and u: "json_Unmarshal J re None = (v, None)"
    by blast
  have "Marshal J rad v = (re, None)" "UnMarshal J rad re = (v, None)"
    by (simp_all add: Marshal_def UnMarshal_def m u)
  then show "\<exists>val. Marshal J rad v = (val, None) \<and> UnMarshal J rad val = (v, None)"
    by blast
qed

section \<open>Routing of errors\<close>

text \<open>
  C2. For every error value passed to \<^verbatim>\<open>Error\<close>: if a logger is attached, the error is
  written to that logger and the call returns; if none is attached, the error is written
  to the standard logger and the process exits (\<^verbatim>\<open>log.Fatal\<close>). Nothing else changes.
\<close>

theorem Error_routes_or_exits:
  "(Logger rad = Some l \<longrightarrow>
      Error rad err w = (Returns (), w\<lparr>zap := (zap w)(l := zap w l @ [err])\<rparr>)) \<and>
   (Logger rad = None \<longrightarrow>
      Error rad err w = (Exited, w\<lparr>stdlog := stdlog w @ [err]\<rparr>))"
  by (simp add: Error_def Logger_Error_def log_Fatal_def)

theorem Error_routes_or_exits_witness:
  "Logger (UseZapLogger (NewDefault :: nat RadCache) (Some 7)) = Some 7 \<and>
   fst (Error (UseZapLogger (NewDefault :: nat RadCache) (Some 7)) (Err ''boom'') w0) = Returns () \<and>
   zap (snd (Error (UseZapLogger (NewDefault :: nat RadCache) (Some 7)) (Err ''boom'') w0)) 7
     = [Err ''boom''] \<and>
   Logger (NewDefault :: nat RadCache) = None \<and>
   fst (Error (NewDefault :: nat RadCache) (Err ''boom'') w0) = Exited \<and>
   stdlog (snd (Error (NewDefault :: nat RadCache) (Err ''boom'') w0)) = [Err ''boom'']"
  using Error_routes_or_exits [of "UseZapLogger (NewDefault :: nat RadCache) (Some 7)" 7
      "Err ''boom''" w0]
    Error_routes_or_exits [of "NewDefault :: nat RadCache" 7 "Err ''boom''" w0]
  by (simp add: UseZapLogger_def NewDefault_def w0_def)

text \<open>
  C3. The typed getters \<^verbatim>\<open>GetInt\<close>, \<^verbatim>\<open>GetInt64\<close>, \<^verbatim>\<open>GetBool\<close>, \<^verbatim>\<open>GetFloat32\<close> and
  \<^verbatim>\<open>GetFloat64\<close> call \<^verbatim>\<open>rad.Logger.Error\<close> directly: with no logger attached, a
  failure of the store on these paths panics on the nil pointer, where \<^verbatim>\<open>Get\<close>,
  \<^verbatim>\<open>GetString\<close>, \<^verbatim>\<open>Set\<close> (on a serialization failure), \<^verbatim>\<open>Del\<close> and \<^verbatim>\<open>DelAny\<close> go
  through \<^verbatim>\<open>rad.Error\<close> and exit by \<^verbatim>\<open>log.Fatal\<close>.
\<close>

theorem typed_getters_panic_without_logger:
  assumes db: "Db rad = Some c" and nolog: "Logger rad = None"
    and get: "Client_Get c (Ctx rad) (Prefix (Options rad) @ key) (store w) = (cmd, s1)"
    and del: "Client_Del c (Ctx rad) [Prefix (Options rad) @ key] (store w) = (dcmd, s2)"
    and dels: "Client_Del c (Ctx rad) (map (\<lambda>v. Prefix (Options rad) @ v) keys) (store w)
                 = (acmd, s3)"
  shows
    "(snd (StringCmd_Int cmd) \<noteq> None \<longrightarrow> fst (GetInt rad key w) = Panicked) \<and>
     (snd (StringCmd_Int64 cmd) \<noteq> None \<longrightarrow> fst (GetInt64 rad key w) = Panicked) \<and>
     (snd (StringCmd_Bool cmd) \<noteq> None \<longrightarrow> fst (GetBool rad key w) = Panicked) \<and>
     (snd (StringCmd_Float32 cmd) \<noteq> None \<longrightarrow> fst (GetFloat32 rad key w) = Panicked) \<and>
     (snd (StringCmd_Float64 cmd) \<noteq> None \<longrightarrow> fst (GetFloat64 rad key w) = Panicked) \<and>
     (snd (StringCmd_Result cmd) \<noteq> None \<longrightarrow>
        fst (Get J rad key w) = Exited \<and> fst (GetString rad key w) = Exited) \<and>
     (snd (Marshal J rad value) \<noteq> None \<longrightarrow> fst (Set J rad key value exp w) = Exited) \<and>
     (IntCmd_err dcmd \<noteq> None \<longrightarrow> fst (Del rad key w) = Exited) \<and>
     (IntCmd_err acmd \<noteq> None \<longrightarrow> fst (DelAny rad keys w) = Exited)"
proof -
  have "snd (StringCmd_Int cmd) \<noteq> None \<longrightarrow> fst (GetInt rad key w) = Panicked"
    by (simp add: GetInt_run [OF db get] nolog split: prod.splits option.splits)
  moreover have "snd (StringCmd_Int64 cmd) \<noteq> None \<longrightarrow> fst (GetInt64 rad key w) = Panicked"
    by (simp add: GetInt64_run [OF db get] nolog split: prod.splits option.splits)
  moreover have "snd (StringCmd_Bool cmd) \<noteq> None \<longrightarrow> fst (GetBool rad key w) = Panicked"
    by (simp add: GetBool_run [OF db get] nolog split: prod.splits option.splits)
  moreover have "snd (StringCmd_Float32 cmd) \<noteq> None \<longrightarrow> fst (GetFloat32 rad key w) = Panicked"
    by (simp add: GetFloat32_run [OF db get] nolog split: prod.splits option.splits)
  moreover have "snd (StringCmd_Float64 cmd) \<noteq> None \<longrightarrow> fst (GetFloat64 rad key w) = Panicked"
    by (simp add: GetFloat64_run [OF db get] nolog split: prod.splits option.splits)
  moreover have "snd (StringCmd_Result cmd) \<noteq> None \<longrightarrow>
      fst (Get J rad key w) = Exited \<and> fst (GetString rad key w) = Exited"
    by (simp add: Get_run [OF db get] GetString_run [OF db get] nolog
        split: prod.splits option.splits)
  moreover have "snd (Marshal J rad value) \<noteq> None \<longrightarrow> fst (Set J rad key value exp w) = Exited"
  proof (cases "Marshal J rad value")
    case (Pair val err)
    then show ?thesis
      by (cases err) (simp_all add: Set_marshal_failure_run nolog)
  qed
  moreover have "IntCmd_err dcmd \<noteq> None \<longrightarrow> fst (Del rad key w) = Exited"
    by (simp add: Del_run [OF db del] nolog split: option.splits)
  moreover have "IntCmd_err acmd \<noteq> None \<longrightarrow> fst (DelAny rad keys w) = Exited"
    by (simp add: DelAny_run [OF db dels] nolog split: option.splits)
  ultimately show ?thesis by blast
qed

theorem typed_getters_panic_without_logger_witness:
  "fst (GetInt (rad_quiet (failing_client (Err ''EOF''))) ''n'' w0) = Panicked \<and>
   fst (GetInt64 (rad_quiet (failing_client (Err ''EOF''))) ''n'' w0) = Panicked \<and>
   fst (GetBool (rad_quiet (failing_client (Err ''EOF''))) ''n'' w0) = Panicked \<and>
   fst (GetFloat32 (rad_quiet (failing_client (Err ''EOF''))) ''n'' w0) = Panicked \<and>
   fst (GetFloat64 (rad_quiet (failing_client (Err ''EOF''))) ''n'' w0) = Panicked \<and>
   fst (Get json_for_chan (rad_quiet (failing_client (Err ''EOF''))) ''n'' w0) = Exited \<and>
   fst (GetString (rad_quiet (failing_client (Err ''EOF''))) ''n'' w0) = Exited \<and>
   fst (Set json_for_chan (rad_quiet (failing_client (Err ''EOF''))) ''n'' (Some Chan) 0 w0)
     = Exited \<and>
   fst (Del (rad_quiet (failing_client (Err ''EOF''))) ''n'' w0) = Exited \<and>
   fst (DelAny (rad_quiet (failing_client (Err ''EOF''))) [''a'', ''b''] w0) = Exited"
proof -
  let ?c = "failing_client (Err ''EOF'')"
  let ?rad = "rad_quiet ?c"
  let ?bad = "\<lparr>IntCmd_val = 0, IntCmd_err = Some (Err ''EOF'')\<rparr>"
  have db: "Db ?rad = Some ?c"
    by (simp add: rad_quiet_def UseRedis_def)
  have nolog: "Logger ?rad = None"
    by (simp add: rad_quiet_def UseRedis_def NewDefault_def)
  have get: "Client_Get ?c (Ctx ?rad) (Prefix (Options ?rad) @ ''n'') (store w0)
      = (failing_cmd (Err ''EOF''), 1)"
    by (simp add: failing_client_def scripted_client_def w0_def)
  have del: "Client_Del ?c (Ctx ?rad) [Prefix (Options ?rad) @ ''n''] (store w0) = (?bad, 1)"
    by (simp add: failing_client_def scripted_client_def w0_def)
  have dels: "Client_Del ?c (Ctx ?rad) (map (\<lambda>v. Prefix (Options ?rad) @ v) [''a'', ''b''])
      (store w0) = (?bad, 1)"
    by (simp add: failing_client_def scripted_client_def w0_def)
  have enc: "snd (Marshal json_for_chan ?rad (Some Chan)) \<noteq> None"
    by (simp add: Marshal_def json_for_chan_def scripted_json_def)
  from typed_getters_panic_without_logger [OF db nolog get del dels,
      of json_for_chan "Some Chan" 0] enc
  show ?thesis
    by (simp add: failing_cmd_def)
qed

text \<open>
  C4, as amended. If serializing the value fails, \<^verbatim>\<open>Set\<close> issues no request and leaves the
  store as it was. With a logger attached, the serialization error is written to it and
  the same error is returned in the command object; with none attached, the process exits
  by \<^verbatim>\<open>log.Fatal\<close> and nothing is returned.
\<close>

theorem Set_serialization_failure:
  assumes "Marshal J rad value = (val, Some err)"
  shows
    "requests (snd (Set J rad key value exp w)) = requests w \<and>
     store (snd (Set J rad key value exp w)) = store w \<and>
     (Logger rad = Some l \<longrightarrow>
        Set J rad key value exp w =
          (Returns \<lparr>StatusCmd_val = [], StatusCmd_err = Some err\<rparr>, logged w l err)) \<and>
     (Logger rad = None \<longrightarrow>
        Set J rad key value exp w = (Exited, w\<lparr>stdlog := stdlog w @ [err]\<rparr>))"
  by (simp add: Set_marshal_failure_run [OF assms] split: option.splits)

theorem Set_serialization_failure_witness:
  "requests (snd (Set json_for_chan (rad_logged answering_client) ''k'' (Some Chan) 60 w0)) = [] \<and>
   store (snd (Set json_for_chan (rad_logged answering_client) ''k'' (Some Chan) 60 w0)) = 0 \<and>
   fst (Set json_for_chan (rad_logged answering_client) ''k'' (Some Chan) 60 w0)
     = Returns \<lparr>StatusCmd_val = [], StatusCmd_err = Some (Err ''json: unsupported type: chan int'')\<rparr> \<and>
   zap (snd (Set json_for_chan (rad_logged answering_client) ''k'' (Some Chan) 60 w0)) 7
     = [Err ''json: unsupported type: chan int''] \<and>
   fst (Set json_for_chan (rad_quiet answering_client) ''k'' (Some Chan) 60 w0) = Exited \<and>
   requests (snd (Set json_for_chan (rad_quiet answering_client) ''k'' (Some Chan) 60 w0)) = []"
proof -
  let ?e = "Err ''json: unsupported type: chan int''"
  have enc: "Marshal json_for_chan rad (Some Chan) = ([], Some ?e)" for rad :: "nat RadCache"
    by (simp add: Marshal_def json_for_chan_def scripted_json_def)
  have lg: "Logger (rad_logged answering_client) = Some 7"
    by (simp add: rad_logged_def UseZapLogger_def)
  have nolog: "Logger (rad_quiet answering_client) = None"
    by (simp add: rad_quiet_def UseRedis_def NewDefault_def)
  from Set_serialization_failure [OF enc, where key = "''k''" and exp = 60 and w = w0 and l = 7
      and rad = "rad_logged answering_client"]
    Set_serialization_failure [OF enc, where key = "''k''" and exp = 60 and w = w0 and l = 7
      and rad = "rad_quiet answering_client"]
    lg nolog
  show ?thesis
    by (simp add: w0_def)
qed

theorem Set_serialization_failure_counterexample:
  "snd (Marshal json_for_chan (rad_quiet answering_client) (Some Chan))
     = Some (Err ''json: unsupported type: chan int'') \<and>
   fst (Set json_for_chan (rad_quiet answering_client) ''k'' (Some Chan) 60 w0) = Exited \<and>
   fst (Set json_for_chan (rad_quiet answering_client) ''k'' (Some Chan) 60 w0)
     \<noteq> Returns \<lparr>StatusCmd_val = [], StatusCmd_err = Some (Err ''json: unsupported type: chan int'')\<rparr> \<and>
   zap (snd (Set json_for_chan (rad_quiet answering_client) ''k'' (Some Chan) 60 w0)) = (\<lambda>_. [])"
  by (simp add: Set_def Marshal_def json_for_chan_def scripted_json_def rad_quiet_def UseRedis_def NewDefault_def
      effect_defs w0_def)

section \<open>Physical keys\<close>

text \<open>
  C5. On a handle with a store attached, every method sends the store exactly one request,
  and the key in it is \<^verbatim>\<open>rad.Options.Prefix\<close> followed by the caller's key (for
  \<^verbatim>\<open>DelAny\<close>: each of the caller's keys, in order); \<^verbatim>\<open>Set\<close> does so once the value is
  serialized. No method assigns to \<^verbatim>\<open>Options\<close>: the store methods take the handle and
  return none, and the two methods that assign fields, \<^verbatim>\<open>UseRedis\<close> and
  \<^verbatim>\<open>UseZapLogger\<close>, leave the prefix as it was.
\<close>

theorem physical_key_is_prefix_then_key:
  assumes db: "Db rad = Some c"
  shows
    "(Marshal J rad v = (val, None) \<longrightarrow>
        requests (snd (Set J rad key v exp w))
          = requests w @ [SET (Ctx rad) (Prefix (Options rad) @ key) (ArgString val) exp]) \<and>
     requests (snd (SetString rad key vs exp w))
       = requests w @ [SET (Ctx rad) (Prefix (Options rad) @ key) (ArgString vs) exp] \<and>
     requests (snd (SetInt rad key vi exp w))
       = requests w @ [SET (Ctx rad) (Prefix (Options rad) @ key) (ArgInt vi) exp] \<and>
     requests (snd (SetInt64 rad key vl exp w))
       = requests w @ [SET (Ctx rad) (Prefix (Options rad) @ key) (ArgInt64 vl) exp] \<and>
     requests (snd (SetBool rad key vb exp w))
       = requests w @ [SET (Ctx rad) (Prefix (Options rad) @ key) (ArgBool vb) exp] \<and>
     requests (snd (SetFloat32 rad key vf exp w))
       = requests w @ [SET (Ctx rad) (Prefix (Options rad) @ key) (ArgFloat32 vf) exp] \<and>
     requests (snd (SetFloat64 rad key vd exp w))
       = requests w @ [SET (Ctx rad) (Prefix (Options rad) @ key) (ArgFloat64 vd) exp] \<and>
     requests (snd (Get J rad key w))
       = requests w @ [GET (Ctx rad) (Prefix (Options rad) @ key)] \<and>
     requests (snd (GetString rad key w))
       = requests w @ [GET (Ctx rad) (Prefix (Options rad) @ key)] \<and>
     requests (snd (GetInt rad key w))
       = requests w @ [GET (Ctx rad) (Prefix (Options rad) @ key)] \<and>
     requests (snd (GetInt64 rad key w))
       = requests w @ [GET (Ctx rad) (Prefix (Options rad) @ key)] \<and>
     requests (snd (GetBool rad key w))
       = requests w @ [GET (Ctx rad) (Prefix (Options rad) @ key)] \<and>
     requests (snd (GetFloat32 rad key w))
       = requests w @ [GET (Ctx rad) (Prefix (Options rad) @ key)] \<and>
     requests (snd (GetFloat64 rad key w))
       = requests w @ [GET (Ctx rad) (Prefix (Options rad) @ key)] \<and>
     requests (snd (GetStringOrDefault rad key ds w))
       = requests w @ [GET (Ctx rad) (Prefix (Options rad) @ key)] \<and>
     requests (snd (GetIntOrDefault rad key di w))
       = requests w @ [GET (Ctx rad) (Prefix (Options rad) @ key)] \<and>
     requests (snd (GetInt64OrDefault rad key dl w))
       = requests w @ [GET (Ctx rad) (Prefix (Options rad) @ key)] \<and>
     requests (snd (GetBoolOrDefault rad key db w))
       = requests w @ [GET (Ctx rad) (Prefix (Options rad) @ key)] \<and>
     requests (snd (GetFloat32OrDefault rad key df w))
       = requests w @ [GET (Ctx rad) (Prefix (Options rad) @ key)] \<and>
     requests (snd (GetFloat64OrDefault rad key dd w))
       = requests w @ [GET (Ctx rad) (Prefix (Options rad) @ key)] \<and>
     requests (snd (Del rad key w))
       = requests w @ [DEL (Ctx rad) [Prefix (Options rad) @ key]] \<and>
     requests (snd (DelAny rad keys w))
       = requests w @ [DEL (Ctx rad) (map (\<lambda>v. Prefix (Options rad) @ v) keys)] \<and>
     requests (snd (Exist rad key w))
       = requests w @ [EXISTS (Ctx rad) [Prefix (Options rad) @ key]] \<and>
     Prefix (Options (UseRedis rad client)) = Prefix (Options rad) \<and>
     Prefix (Options (UseZapLogger rad logger)) = Prefix (Options rad)"
proof -
  have "Marshal J rad v = (val, None) \<longrightarrow>
      requests (snd (Set J rad key v exp w))
        = requests w @ [SET (Ctx rad) (Prefix (Options rad) @ key) (ArgString val) exp]"
    by (simp add: Set_def setter_requests [OF db])
  moreover have
    "requests (snd (SetString rad key vs exp w))
       = requests w @ [SET (Ctx rad) (Prefix (Options rad) @ key) (ArgString vs) exp]"
    "requests (snd (SetInt rad key vi exp w))
       = requests w @ [SET (Ctx rad) (Prefix (Options rad) @ key) (ArgInt vi) exp]"
    "requests (snd (SetInt64 rad key vl exp w))
       = requests w @ [SET (Ctx rad) (Prefix (Options rad) @ key) (ArgInt64 vl) exp]"
    "requests (snd (SetBool rad key vb exp w))
       = requests w @ [SET (Ctx rad) (Prefix (Options rad) @ key) (ArgBool vb) exp]"
    "requests (snd (SetFloat32 rad key vf exp w))
       = requests w @ [SET (Ctx rad) (Prefix (Options rad) @ key) (ArgFloat32 vf) exp]"
    "requests (snd (SetFloat64 rad key vd exp w))
       = requests w @ [SET (Ctx rad) (Prefix (Options rad) @ key) (ArgFloat64 vd) exp]"
    by (simp_all add: SetString_def SetInt_def SetInt64_def SetBool_def SetFloat32_def
        SetFloat64_def setter_requests [OF db])
  moreover have
    "Prefix (Options (UseRedis rad client)) = Prefix (Options rad)"
    "Prefix (Options (UseZapLogger rad logger)) = Prefix (Options rad)"
    by (simp_all add: UseRedis_def UseZapLogger_def)
  ultimately show ?thesis
    by (simp add: OrDefault_world Get_requests [OF db] GetString_requests [OF db]
        GetInt_requests [OF db] GetInt64_requests [OF db] GetBool_requests [OF db]
        GetFloat32_requests [OF db] GetFloat64_requests [OF db] Del_requests [OF db]
        DelAny_requests [OF db] Exist_requests [OF db])
qed

theorem physical_key_is_prefix_then_key_witness:
  "requests (snd (Set json_for_hello (UseRedis (New \<lparr>Prefix = ''test_''\<rparr>) (Some answering_client))
      ''a'' (Some (Text ''hello'')) 3600 w0))
     = [SET Background ''test_a'' (ArgString [CHR 0x22, CHR ''h'', CHR ''e'', CHR ''l'', CHR ''l'',
          CHR ''o'', CHR 0x22]) 3600] \<and>
   requests (snd (SetString (UseRedis (New \<lparr>Prefix = ''test_''\<rparr>) (Some answering_client))
      ''a'' ''hello'' 3600 w0))
     = [SET Background ''test_a'' (ArgString ''hello'') 3600] \<and>
   requests (snd (GetInt (UseRedis (New \<lparr>Prefix = ''test_''\<rparr>) (Some answering_client))
      ''a'' w0))
     = [GET Background ''test_a''] \<and>
   requests (snd (DelAny (UseRedis (New \<lparr>Prefix = ''test_''\<rparr>) (Some answering_client))
      [''a'', ''b''] w0))
     = [DEL Background [''test_a'', ''test_b'']] \<and>
   requests (snd (Exist (UseRedis (New \<lparr>Prefix = ''test_''\<rparr>) (Some answering_client))
      ''a'' w0))
     = [EXISTS Background [''test_a'']]"
proof -
  let ?rad = "UseRedis (New \<lparr>Prefix = ''test_''\<rparr>) (Some answering_client)"
  have db: "Db ?rad = Some answering_client"
    by (simp add: UseRedis_def)
  have enc: "Marshal json_for_hello ?rad (Some (Text ''hello''))
      = (CHR 0x22 # ''hello'' @ [CHR 0x22], None)"
    by (simp add: Marshal_def json_for_hello_def scripted_json_def)
  from physical_key_is_prefix_then_key [OF db, where J = json_for_hello
      and v = "Some (Text ''hello'')" and val = "CHR 0x22 # ''hello'' @ [CHR 0x22]"
      and key = "''a''" and exp = 3600 and w = w0 and vs = "''hello''" and keys = "[''a'', ''b'']"]
    enc
  show ?thesis
    by (simp add: UseRedis_def New_def w0_def)
qed

section \<open>Existence and deletion\<close>

text \<open>
  C9. On a handle with a store attached, \<^verbatim>\<open>Exist\<close> asks the store once, for the prefixed
  key, and returns true exactly when the count in the answer is one. The error of the
  answer is never read: an answer with count zero and an error gives false, and nothing is
  logged.
\<close>

theorem Exist_iff_count_is_one:
  assumes "Db rad = Some c"
    and "Client_Exists c (Ctx rad) [Prefix (Options rad) @ key] (store w) = (cmd, s')"
  shows
    "Exist rad key w =
       (Returns (IntCmd_val cmd = 1), sent w s' (EXISTS (Ctx rad) [Prefix (Options rad) @ key])) \<and>
     (fst (Exist rad key w) = Returns True \<longleftrightarrow> IntCmd_val cmd = 1) \<and>
     (IntCmd_val cmd = 0 \<longrightarrow> fst (Exist rad key w) = Returns False)"
  by (simp add: Exist_run [OF assms])

theorem Exist_iff_count_is_one_witness:
  "fst (Exist (rad_quiet answering_client) ''a'' w0) = Returns True \<and>
   fst (Exist (rad_quiet (failing_client (Err ''connection refused''))) ''a'' w0) = Returns False \<and>
   fst (Exist (rad_quiet (scripted_client \<lparr>StatusCmd_val = [], StatusCmd_err = None\<rparr> cmd_42
          \<lparr>IntCmd_val = 0, IntCmd_err = None\<rparr> \<lparr>IntCmd_val = 2, IntCmd_err = None\<rparr>)) ''a'' w0)
     = Returns False \<and>
   snd (Exist (rad_quiet (failing_client (Err ''connection refused''))) ''a'' w0)
     = \<lparr>store = 1, requests = [EXISTS Background [''rad_a'']], zap = (\<lambda>_. []), stdlog = []\<rparr>"
proof -
  let ?bad = "failing_client (Err ''connection refused'')"
  let ?two = "scripted_client \<lparr>StatusCmd_val = [], StatusCmd_err = None\<rparr> cmd_42
    \<lparr>IntCmd_val = 0, IntCmd_err = None\<rparr> \<lparr>IntCmd_val = 2, IntCmd_err = None\<rparr>"
  have db: "Db (rad_quiet c) = Some c" for c
    by (simp add: rad_quiet_def UseRedis_def)
  have one: "Client_Exists answering_client (Ctx (rad_quiet answering_client))
      [Prefix (Options (rad_quiet answering_client)) @ ''a''] (store w0)
      = (\<lparr>IntCmd_val = 1, IntCmd_err = None\<rparr>, 1)"
    by (simp add: answering_client_def scripted_client_def w0_def)
  have zero: "Client_Exists ?bad (Ctx (rad_quiet ?bad)) [Prefix (Options (rad_quiet ?bad)) @ ''a'']
      (store w0) = (\<lparr>IntCmd_val = 0, IntCmd_err = Some (Err ''connection refused'')\<rparr>, 1)"
    by (simp add: failing_client_def scripted_client_def w0_def)
  have two: "Client_Exists ?two (Ctx (rad_quiet ?two)) [Prefix (Options (rad_quiet ?two)) @ ''a'']
      (store w0) = (\<lparr>IntCmd_val = 2, IntCmd_err = None\<rparr>, 1)"
    by (simp add: scripted_client_def w0_def)
  from Exist_iff_count_is_one [OF db one] Exist_iff_count_is_one [OF db zero]
    Exist_iff_count_is_one [OF db two]
  show ?thesis
    by (simp add: rad_quiet_def UseRedis_def NewDefault_def w0_def)
qed

text \<open>
  C10, as amended. On a handle with a store attached, \<^verbatim>\<open>DelAny\<close> prefixes each key and
  sends exactly one \<^verbatim>\<open>DEL\<close> request that names all of them, in order. With a logger
  attached, it returns the error of the answer, written to the logger when it is not nil;
  with none attached, a failure of the store makes the process exit by \<^verbatim>\<open>log.Fatal\<close>.
\<close>

theorem DelAny_one_batched_delete:
  assumes "Db rad = Some c"
    and "Client_Del c (Ctx rad) (map (\<lambda>v. Prefix (Options rad) @ v) keys) (store w) = (cmd, s')"
  shows
    "requests (snd (DelAny rad keys w))
       = requests w @ [DEL (Ctx rad) (map (\<lambda>v. Prefix (Options rad) @ v) keys)] \<and>
     (IntCmd_err cmd = None \<longrightarrow>
        DelAny rad keys w =
          (Returns None,
           sent w s' (DEL (Ctx rad) (map (\<lambda>v. Prefix (Options rad) @ v) keys)))) \<and>
     (Logger rad = Some l \<longrightarrow> IntCmd_err cmd = Some err \<longrightarrow>
        DelAny rad keys w =
          (Returns (Some err),
           logged (sent w s' (DEL (Ctx rad) (map (\<lambda>v. Prefix (Options rad) @ v) keys))) l err)) \<and>
     (Logger rad = None \<longrightarrow> IntCmd_err cmd = Some err \<longrightarrow>
        fst (DelAny rad keys w) = Exited)"
  by (simp add: DelAny_run [OF assms] split: option.splits)

theorem DelAny_one_batched_delete_witness:
  "requests (snd (DelAny (rad_logged (failing_client (Err ''EOF''))) [''a'', ''b'', ''c''] w0))
     = [DEL Background [''rad_a'', ''rad_b'', ''rad_c'']] \<and>
   fst (DelAny (rad_logged (failing_client (Err ''EOF''))) [''a'', ''b'', ''c''] w0)
     = Returns (Some (Err ''EOF'')) \<and>
   zap (snd (DelAny (rad_logged (failing_client (Err ''EOF''))) [''a'', ''b'', ''c''] w0)) 7
     = [Err ''EOF''] \<and>
   DelAny (rad_logged answering_client) [''a'', ''b'', ''c''] w0
     = (Returns None, \<lparr>store = 1, requests = [DEL Background [''rad_a'', ''rad_b'', ''rad_c'']],
          zap = (\<lambda>_. []), stdlog = []\<rparr>) \<and>
   fst (DelAny (rad_quiet (failing_client (Err ''EOF''))) [''a'', ''b'', ''c''] w0) = Exited"
proof -
  let ?bad = "failing_client (Err ''EOF'')"
  let ?ks = "[''a'', ''b'', ''c'']"
  have db: "Db (rad_logged c) = Some c" "Db (rad_quiet c) = Some c" for c
    by (simp_all add: rad_logged_def rad_quiet_def UseRedis_def UseZapLogger_def)
  have lg: "Logger (rad_logged c) = Some 7" "Logger (rad_quiet c) = None" for c
    by (simp_all add: rad_logged_def rad_quiet_def UseRedis_def UseZapLogger_def NewDefault_def)
  have bad: "Client_Del ?bad (Ctx rad) (map (\<lambda>v. Prefix (Options rad) @ v) ?ks) (store w0)
      = (\<lparr>IntCmd_val = 0, IntCmd_err = Some (Err ''EOF'')\<rparr>, 1)" for rad :: "nat RadCache"
    by (simp add: failing_client_def scripted_client_def w0_def)
  have good: "Client_Del answering_client (Ctx rad) (map (\<lambda>v. Prefix (Options rad) @ v) ?ks)
      (store w0) = (\<lparr>IntCmd_val = 1, IntCmd_err = None\<rparr>, 1)" for rad :: "nat RadCache"
    by (simp add: answering_client_def scripted_client_def w0_def)
  from DelAny_one_batched_delete [OF db(1) bad, where l = 7 and err = "Err ''EOF''"]
    DelAny_one_batched_delete [OF db(1) good, where l = 7 and err = "Err ''EOF''"]
    DelAny_one_batched_delete [OF db(2) bad, where l = 7 and err = "Err ''EOF''"]
    lg
  show ?thesis
    by (simp add: rad_logged_def rad_quiet_def UseRedis_def UseZapLogger_def NewDefault_def
        w0_def)
qed

theorem DelAny_one_batched_delete_counterexample:
  "IntCmd_err (fst (Client_Del (failing_client (Err ''EOF'')) Background [''rad_a'', ''rad_b''] 0))
     = Some (Err ''EOF'') \<and>
   fst (DelAny (rad_quiet (failing_client (Err ''EOF''))) [''a'', ''b''] w0) = Exited \<and>
   fst (DelAny (rad_quiet (failing_client (Err ''EOF''))) [''a'', ''b''] w0)
     \<noteq> Returns (Some (Err ''EOF'')) \<and>
   zap (snd (DelAny (rad_quiet (failing_client (Err ''EOF''))) [''a'', ''b''] w0)) = (\<lambda>_. [])"
  by (simp add: DelAny_def Db_Del_def rad_quiet_def UseRedis_def NewDefault_def
      failing_client_def scripted_client_def effect_defs w0_def)

section \<open>Typed getters and their fallbacks\<close>

text \<open>
  C7, as amended. On a handle with a store and a logger attached, each typed getter
  returns, when the answer's accessor reports an error, its fixed value beside that error:
  the empty string for \<^verbatim>\<open>GetString\<close>, \<open>-1\<close> for \<^verbatim>\<open>GetInt\<close> and \<^verbatim>\<open>GetInt64\<close>, false
  for \<^verbatim>\<open>GetBool\<close>, \<open>0.0\<close> for \<^verbatim>\<open>GetFloat32\<close> and \<^verbatim>\<open>GetFloat64\<close>. With no logger
  attached, \<^verbatim>\<open>GetString\<close> does not return on such an error: the process exits by
  \<^verbatim>\<open>log.Fatal\<close>. Whenever a typed getter does return an error, the value beside it is
  that fixed value.
\<close>

theorem typed_getters_failure_value:
  assumes db: "Db rad = Some c"
    and get: "Client_Get c (Ctx rad) (Prefix (Options rad) @ key) (store w) = (cmd, s')"
  shows
    "(Logger rad = Some l \<longrightarrow>
        (snd (StringCmd_Result cmd) = Some err \<longrightarrow>
           fst (GetString rad key w) = Returns ([], Some err)) \<and>
        (snd (StringCmd_Int cmd) = Some err \<longrightarrow>
           fst (GetInt rad key w) = Returns (- 1, Some err)) \<and>
        (snd (StringCmd_Int64 cmd) = Some err \<longrightarrow>
           fst (GetInt64 rad key w) = Returns (- 1, Some err)) \<and>
        (snd (StringCmd_Bool cmd) = Some err \<longrightarrow>
           fst (GetBool rad key w) = Returns (False, Some err)) \<and>
        (snd (StringCmd_Float32 cmd) = Some err \<longrightarrow>
           fst (GetFloat32 rad key w) = Returns (0, Some err)) \<and>
        (snd (StringCmd_Float64 cmd) = Some err \<longrightarrow>
           fst (GetFloat64 rad key w) = Returns (0, Some err))) \<and>
     (Logger rad = None \<longrightarrow> snd (StringCmd_Result cmd) = Some err \<longrightarrow>
        fst (GetString rad key w) = Exited) \<and>
     (fst (GetString rad key w) = Returns (rs, Some e) \<longrightarrow> rs = []) \<and>
     (fst (GetInt rad key w) = Returns (ri, Some e) \<longrightarrow> ri = - 1) \<and>
     (fst (GetInt64 rad key w) = Returns (rl, Some e) \<longrightarrow> rl = - 1) \<and>
     (fst (GetBool rad key w) = Returns (rb, Some e) \<longrightarrow> rb = False) \<and>
     (fst (GetFloat32 rad key w) = Returns (rf, Some e) \<longrightarrow> rf = 0) \<and>
     (fst (GetFloat64 rad key w) = Returns (rd, Some e) \<longrightarrow> rd = 0)"
proof -
  have "fst (GetString rad key w) = Returns (rs, Some e) \<longrightarrow> rs = []"
    by (auto simp add: GetString_run [OF db get] split: prod.splits option.splits)
  moreover have "fst (GetInt rad key w) = Returns (ri, Some e) \<longrightarrow> ri = - 1"
    by (auto simp add: GetInt_run [OF db get] split: prod.splits option.splits)
  moreover have "fst (GetInt64 rad key w) = Returns (rl, Some e) \<longrightarrow> rl = - 1"
    by (auto simp add: GetInt64_run [OF db get] split: prod.splits option.splits)
  moreover have "fst (GetBool rad key w) = Returns (rb, Some e) \<longrightarrow> rb = False"
    by (auto simp add: GetBool_run [OF db get] split: prod.splits option.splits)
  moreover have "fst (GetFloat32 rad key w) = Returns (rf, Some e) \<longrightarrow> rf = 0"
    by (auto simp add: GetFloat32_run [OF db get] split: prod.splits option.splits)
  moreover have "fst (GetFloat64 rad key w) = Returns (rd, Some e) \<longrightarrow> rd = 0"
    by (auto simp add: GetFloat64_run [OF db get] split: prod.splits option.splits)
  moreover have "snd (StringCmd_Result cmd) = Some err \<longrightarrow>
      fst (GetString rad key w)
        = (case Logger rad of None \<Rightarrow> Exited | Some l \<Rightarrow> Returns ([], Some err))"
    by (simp add: GetString_run [OF db get] split: prod.splits option.splits)
  moreover have "Logger rad = Some l \<longrightarrow> snd (StringCmd_Int cmd) = Some err \<longrightarrow>
      fst (GetInt rad key w) = Returns (- 1, Some err)"
    by (simp add: GetInt_run [OF db get] split: prod.splits option.splits)
  moreover have "Logger rad = Some l \<longrightarrow> snd (StringCmd_Int64 cmd) = Some err \<longrightarrow>
      fst (GetInt64 rad key w) = Returns (- 1, Some err)"
    by (simp add: GetInt64_run [OF db get] split: prod.splits option.splits)
  moreover have "Logger rad = Some l \<longrightarrow> snd (StringCmd_Bool cmd) = Some err \<longrightarrow>
      fst (GetBool rad key w) = Returns (False, Some err)"
    by (simp add: GetBool_run [OF db get] split: prod.splits option.splits)
  moreover have "Logger rad = Some l \<longrightarrow> snd (StringCmd_Float32 cmd) = Some err \<longrightarrow>
      fst (GetFloat32 rad key w) = Returns (0, Some err)"
    by (simp add: GetFloat32_run [OF db get] split: prod.splits option.splits)
  moreover have "Logger rad = Some l \<longrightarrow> snd (StringCmd_Float64 cmd) = Some err \<longrightarrow>
      fst (GetFloat64 rad key w) = Returns (0, Some err)"
    by (simp add: GetFloat64_run [OF db get] split: prod.splits option.splits)
  ultimately show ?thesis
    by simp
qed

theorem typed_getters_failure_value_witness:
  "fst (GetString (rad_logged (failing_client (Err ''redis: nil''))) ''missing'' w0)
     = Returns ([], Some (Err ''redis: nil'')) \<and>
   fst (GetInt (rad_logged (failing_client (Err ''redis: nil''))) ''missing'' w0)
     = Returns (- 1, Some (Err ''redis: nil'')) \<and>
   fst (GetInt64 (rad_logged (failing_client (Err ''redis: nil''))) ''missing'' w0)
     = Returns (- 1, Some (Err ''redis: nil'')) \<and>
   fst (GetBool (rad_logged (failing_client (Err ''redis: nil''))) ''missing'' w0)
     = Returns (False, Some (Err ''redis: nil'')) \<and>
   fst (GetFloat32 (rad_logged (failing_client (Err ''redis: nil''))) ''missing'' w0)
     = Returns (0, Some (Err ''redis: nil'')) \<and>
   fst (GetFloat64 (rad_logged (failing_client (Err ''redis: nil''))) ''missing'' w0)
     = Returns (0, Some (Err ''redis: nil'')) \<and>
   fst (GetString (rad_quiet (failing_client (Err ''redis: nil''))) ''missing'' w0) = Exited"
proof -
  let ?e = "Err ''redis: nil''"
  let ?bad = "failing_client ?e"
  have db: "Db (rad_logged ?bad) = Some ?bad" "Db (rad_quiet ?bad) = Some ?bad"
    by (simp_all add: rad_logged_def rad_quiet_def UseRedis_def UseZapLogger_def)
  have lg: "Logger (rad_logged ?bad) = Some 7" "Logger (rad_quiet ?bad) = None"
    by (simp_all add: rad_logged_def rad_quiet_def UseRedis_def UseZapLogger_def NewDefault_def)
  have get: "Client_Get ?bad (Ctx rad) (Prefix (Options rad) @ ''missing'') (store w0)
      = (failing_cmd ?e, 1)" for rad :: "nat RadCache"
    by (simp add: failing_client_def scripted_client_def w0_def)
  from typed_getters_failure_value [OF db(1) get, where l = 7 and err = ?e and e = ?e
      and rs = "[]" and ri = "- 1" and rl = "- 1" and rb = False and rf = 0 and rd = 0]
    typed_getters_failure_value [OF db(2) get, where l = 7 and err = ?e and e = ?e
      and rs = "[]" and ri = "- 1" and rl = "- 1" and rb = False and rf = 0 and rd = 0] lg
  show ?thesis
    by (simp add: failing_cmd_def)
qed

theorem typed_getters_failure_value_counterexample:
  "snd (StringCmd_Result (fst (Client_Get (failing_client (Err ''redis: nil'')) Background
      ''rad_missing'' 0))) = Some (Err ''redis: nil'') \<and>
   fst (GetString (rad_quiet (failing_client (Err ''redis: nil''))) ''missing'' w0) = Exited \<and>
   fst (GetString (rad_quiet (failing_client (Err ''redis: nil''))) ''missing'' w0)
     \<noteq> Returns ([], Some (Err ''redis: nil''))"
  by (simp add: GetString_def Db_Get_def rad_quiet_def UseRedis_def NewDefault_def
      failing_client_def scripted_client_def failing_cmd_def effect_defs w0_def)

text \<open>
  C6, as amended. Each \<^verbatim>\<open>GetXOrDefault\<close> calls its \<^verbatim>\<open>GetX\<close> and adds no effect: when
  \<^verbatim>\<open>GetX\<close> returns, it returns the fallback if the error is not nil and the fetched value
  otherwise, and when \<^verbatim>\<open>GetX\<close> does not return, neither does it. On a handle with a store
  and a logger attached it always returns, a plain value with no error beside it. With no
  logger attached, \<^verbatim>\<open>GetStringOrDefault\<close> does not return the fallback when the store
  fails: the process exits by \<^verbatim>\<open>log.Fatal\<close>.
\<close>

theorem OrDefault_value_or_fallback:
  assumes db: "Db rad = Some c"
    and get: "Client_Get c (Ctx rad) (Prefix (Options rad) @ key) (store w) = (cmd, s')"
  shows
    "GetStringOrDefault rad key ds w =
       (case GetString rad key w of
          (Returns (result, err), w') \<Rightarrow> (Returns (if err \<noteq> None then ds else result), w')
        | (Exited, w') \<Rightarrow> (Exited, w')
        | (Panicked, w') \<Rightarrow> (Panicked, w')) \<and>
     GetIntOrDefault rad key di w =
       (case GetInt rad key w of
          (Returns (result, err), w') \<Rightarrow> (Returns (if err \<noteq> None then di else result), w')
        | (Exited, w') \<Rightarrow> (Exited, w')
        | (Panicked, w') \<Rightarrow> (Panicked, w')) \<and>
     GetInt64OrDefault rad key dl w =
       (case GetInt64 rad key w of
          (Returns (result, err), w') \<Rightarrow> (Returns (if err \<noteq> None then dl else result), w')
        | (Exited, w') \<Rightarrow> (Exited, w')
        | (Panicked, w') \<Rightarrow> (Panicked, w')) \<and>
     GetBoolOrDefault rad key db w =
       (case GetBool rad key w of
          (Returns (result, err), w') \<Rightarrow> (Returns (if err \<noteq> None then db else result), w')
        | (Exited, w') \<Rightarrow> (Exited, w')
        | (Panicked, w') \<Rightarrow> (Panicked, w')) \<and>
     GetFloat32OrDefault rad key df w =
       (case GetFloat32 rad key w of
          (Returns (result, err), w') \<Rightarrow> (Returns (if err \<noteq> None then df else result), w')
        | (Exited, w') \<Rightarrow> (Exited, w')
        | (Panicked, w') \<Rightarrow> (Panicked, w')) \<and>
     GetFloat64OrDefault rad key dd w =
       (case GetFloat64 rad key w of
          (Returns (result, err), w') \<Rightarrow> (Returns (if err \<noteq> None then dd else result), w')
        | (Exited, w') \<Rightarrow> (Exited, w')
        | (Panicked, w') \<Rightarrow> (Panicked, w')) \<and>
     (Logger rad = Some l \<longrightarrow>
        fst (GetStringOrDefault rad key ds w)
          = Returns (if snd (StringCmd_Result cmd) \<noteq> None then ds
                     else fst (StringCmd_Result cmd)) \<and>
        fst (GetIntOrDefault rad key di w)
          = Returns (if snd (StringCmd_Int cmd) \<noteq> None then di else fst (StringCmd_Int cmd)) \<and>
        fst (GetInt64OrDefault rad key dl w)
          = Returns (if snd (StringCmd_Int64 cmd) \<noteq> None then dl
                     else fst (StringCmd_Int64 cmd)) \<and>
        fst (GetBoolOrDefault rad key db w)
          = Returns (if snd (StringCmd_Bool cmd) \<noteq> None then db else fst (StringCmd_Bool cmd)) \<and>
        fst (GetFloat32OrDefault rad key df w)
          = Returns (if snd (StringCmd_Float32 cmd) \<noteq> None then df
                     else fst (StringCmd_Float32 cmd)) \<and>
        fst (GetFloat64OrDefault rad key dd w)
          = Returns (if snd (StringCmd_Float64 cmd) \<noteq> None then dd
                     else fst (StringCmd_Float64 cmd))) \<and>
     (Logger rad = None \<longrightarrow> snd (StringCmd_Result cmd) \<noteq> None \<longrightarrow>
        fst (GetStringOrDefault rad key ds w) = Exited)"
proof -
  have "Logger rad = Some l \<longrightarrow> fst (GetStringOrDefault rad key ds w)
      = Returns (if snd (StringCmd_Result cmd) \<noteq> None then ds else fst (StringCmd_Result cmd))"
    by (simp add: GetStringOrDefault_run GetString_run [OF db get]
        split: prod.splits option.splits)
  moreover have "Logger rad = None \<longrightarrow> snd (StringCmd_Result cmd) \<noteq> None \<longrightarrow>
      fst (GetStringOrDefault rad key ds w) = Exited"
    by (auto simp add: GetStringOrDefault_run GetString_run [OF db get]
        split: prod.splits option.splits)
  moreover have "Logger rad = Some l \<longrightarrow> fst (GetIntOrDefault rad key di w)
      = Returns (if snd (StringCmd_Int cmd) \<noteq> None then di else fst (StringCmd_Int cmd))"
    by (simp add: GetIntOrDefault_run GetInt_run [OF db get] split: prod.splits option.splits)
  moreover have "Logger rad = Some l \<longrightarrow> fst (GetInt64OrDefault rad key dl w)
      = Returns (if snd (StringCmd_Int64 cmd) \<noteq> None then dl else fst (StringCmd_Int64 cmd))"
    by (simp add: GetInt64OrDefault_run GetInt64_run [OF db get]
        split: prod.splits option.splits)
  moreover have "Logger rad = Some l \<longrightarrow> fst (GetBoolOrDefault rad key db w)
      = Returns (if snd (StringCmd_Bool cmd) \<noteq> None then db else fst (StringCmd_Bool cmd))"
    by (simp add: GetBoolOrDefault_run GetBool_run [OF db get] split: prod.splits option.splits)
  moreover have "Logger rad = Some l \<longrightarrow> fst (GetFloat32OrDefault rad key df w)
      = Returns (if snd (StringCmd_Float32 cmd) \<noteq> None then df
                 else fst (StringCmd_Float32 cmd))"
    by (simp add: GetFloat32OrDefault_run GetFloat32_run [OF db get]
        split: prod.splits option.splits)
  moreover have "Logger rad = Some l \<longrightarrow> fst (GetFloat64OrDefault rad key dd w)
      = Returns (if snd (StringCmd_Float64 cmd) \<noteq> None then dd
                 else fst (StringCmd_Float64 cmd))"
    by (simp add: GetFloat64OrDefault_run GetFloat64_run [OF db get]
        split: prod.splits option.splits)
  moreover note GetStringOrDefault_run [of rad key ds w] GetIntOrDefault_run [of rad key di w]
    GetInt64OrDefault_run [of rad key dl w] GetBoolOrDefault_run [of rad key db w]
    GetFloat32OrDefault_run [of rad key df w] GetFloat64OrDefault_run [of rad key dd w]
  ultimately show ?thesis
    by simp
qed

theorem OrDefault_value_or_fallback_witness:
  "fst (GetIntOrDefault (rad_logged answering_client) ''n'' (- 1) w0) = Returns 42 \<and>
   fst (GetIntOrDefault (rad_logged (failing_client (Err ''redis: nil''))) ''missing'' (- 1) w0)
     = Returns (- 1) \<and>
   fst (GetStringOrDefault (rad_logged answering_client) ''n'' ''none'' w0) = Returns ''42'' \<and>
   fst (GetStringOrDefault (rad_logged (failing_client (Err ''redis: nil''))) ''missing''
      ''none'' w0) = Returns ''none'' \<and>
   fst (GetBoolOrDefault (rad_logged answering_client) ''n'' True w0) = Returns True \<and>
   fst (GetStringOrDefault (rad_quiet (failing_client (Err ''redis: nil''))) ''missing''
      ''none'' w0) = Exited"
proof -
  let ?e = "Err ''redis: nil''"
  let ?bad = "failing_client ?e"
  have db: "Db (rad_logged c) = Some c" "Db (rad_quiet c) = Some c" for c
    by (simp_all add: rad_logged_def rad_quiet_def UseRedis_def UseZapLogger_def)
  have lg: "Logger (rad_logged c) = Some 7" "Logger (rad_quiet c) = None" for c
    by (simp_all add: rad_logged_def rad_quiet_def UseRedis_def UseZapLogger_def NewDefault_def)
  have bad: "Client_Get ?bad (Ctx rad) (Prefix (Options rad) @ ''missing'') (store w0)
      = (failing_cmd ?e, 1)" for rad :: "nat RadCache"
    by (simp add: failing_client_def scripted_client_def w0_def)
  have good: "Client_Get answering_client (Ctx rad) (Prefix (Options rad) @ ''n'') (store w0)
      = (cmd_42, 1)" for rad :: "nat RadCache"
    by (simp add: answering_client_def scripted_client_def w0_def)
  note answered = OrDefault_value_or_fallback [OF db(1) good, where l = 7 and di = "- 1"
      and ds = "''none''" and db = True]
  note failed = OrDefault_value_or_fallback [OF db(1) bad, where l = 7 and di = "- 1"
      and ds = "''none''"]
  note quiet = OrDefault_value_or_fallback [OF db(2) bad, where l = 7 and ds = "''none''"]
  from answered lg(1)
  have "fst (GetIntOrDefault (rad_logged answering_client) ''n'' (- 1) w0)
      = Returns (if snd (StringCmd_Int cmd_42) \<noteq> None then - 1 else fst (StringCmd_Int cmd_42))"
    and "fst (GetStringOrDefault (rad_logged answering_client) ''n'' ''none'' w0)
      = Returns (if snd (StringCmd_Result cmd_42) \<noteq> None then ''none''
                 else fst (StringCmd_Result cmd_42))"
    and "fst (GetBoolOrDefault (rad_logged answering_client) ''n'' True w0)
      = Returns (if snd (StringCmd_Bool cmd_42) \<noteq> None then True else fst (StringCmd_Bool cmd_42))"
    by blast+
  moreover from failed lg(1)
  have "fst (GetIntOrDefault (rad_logged ?bad) ''missing'' (- 1) w0)
      = Returns (if snd (StringCmd_Int (failing_cmd ?e)) \<noteq> None then - 1
                 else fst (StringCmd_Int (failing_cmd ?e)))"
    and "fst (GetStringOrDefault (rad_logged ?bad) ''missing'' ''none'' w0)
      = Returns (if snd (StringCmd_Result (failing_cmd ?e)) \<noteq> None then ''none''
                 else fst (StringCmd_Result (failing_cmd ?e)))"
    by blast+
  moreover from quiet lg(2)
  have "snd (StringCmd_Result (failing_cmd ?e)) \<noteq> None \<longrightarrow>
      fst (GetStringOrDefault (rad_quiet ?bad) ''missing'' ''none'' w0) = Exited"
    by blast
  ultimately show ?thesis
    by (simp add: failing_cmd_def cmd_42_def)
qed

theorem OrDefault_value_or_fallback_counterexample:
  "snd (StringCmd_Result (fst (Client_Get (failing_client (Err ''redis: nil'')) Background
      ''rad_missing'' 0))) = Some (Err ''redis: nil'') \<and>
   fst (GetStringOrDefault (rad_quiet (failing_client (Err ''redis: nil''))) ''missing''
      ''none'' w0) = Exited \<and>
   fst (GetStringOrDefault (rad_quiet (failing_client (Err ''redis: nil''))) ''missing''
      ''none'' w0) \<noteq> Returns ''none''"
  by (simp add: GetStringOrDefault_def GetString_def Db_Get_def rad_quiet_def UseRedis_def
      NewDefault_def failing_client_def scripted_client_def failing_cmd_def effect_defs w0_def)

section \<open>Which failures are returned, and which reach the logger\<close>




end
